theory Spec2Isabelle
  imports Complex_Main "HOL-Library.Sublist" "HOL-Library.Signed_Division"
begin

section \<open>The learning-progress engine of \<open>src/App.js\<close>\<close>

text \<open>
  The engine lives inside one React function component. Its state is the tuple of
  \<open>useState\<close> cells; every handler is a closure created by one render, so it \<^emph>\<open>reads\<close>
  the values of that render and \<^emph>\<open>writes\<close> through the setters. A setter called with a
  value overwrites the cell, a setter called with a function updates the pending value.
  The model passes the state explicitly: a handler takes the state of the render that
  created it and returns the state after all queued updates. Where the source reads a
  variable after having called its setter, the model reads the old value, as the closure
  does.

  The effects that write the cells back to \<open>localStorage\<close>, the focus calls and the map
  widgets change none of the cells and are left out.

  Strings are lists of code units; an Isabelle \<open>char\<close> stands for the code unit of the
  same number, so the model covers text in the range U+0000 to U+00FF. Numbers that count
  are \<open>int\<close>; coordinates and the random draw are \<open>real\<close>.
\<close>

subsection \<open>Built-in string operations\<close>

definition js_whitespace :: "char \<Rightarrow> bool" where
  \<comment> \<open>the class \<open>\s\<close> of a regular expression, below U+0100: TAB, LF, VT, FF, CR, SP, NBSP\<close>
  "js_whitespace c = ((of_char c :: nat) \<in> {9, 10, 11, 12, 13, 32, 160})"

definition strip_whitespace :: "string \<Rightarrow> string" where
  \<comment> \<open>\<open>s.replace(/\s+/g, "")\<close>\<close>
  "strip_whitespace s = filter (\<lambda>c. \<not> js_whitespace c) s"

definition lower_char :: "char \<Rightarrow> char" where
  "lower_char c =
     (let n = (of_char c :: nat)
      in if (65 \<le> n \<and> n \<le> 90) \<or> (192 \<le> n \<and> n \<le> 222 \<and> n \<noteq> 215)
         then char_of (n + 32) else c)"

definition toLowerCase :: "string \<Rightarrow> string" where
  "toLowerCase s = map lower_char s"

fun startsWith :: "string \<Rightarrow> string \<Rightarrow> bool" where
  "startsWith s [] = True"
| "startsWith [] (p # ps) = False"
| "startsWith (c # cs) (p # ps) = (c = p \<and> startsWith cs ps)"

fun str_includes :: "string \<Rightarrow> string \<Rightarrow> bool" where
  \<comment> \<open>\<open>s.includes(sub)\<close> on strings: \<open>sub\<close> occurs in \<open>s\<close> as a contiguous run\<close>
  "str_includes [] sub = (sub = [])"
| "str_includes (c # cs) sub = (startsWith (c # cs) sub \<or> str_includes cs sub)"

subsection \<open>Data\<close>

record entry =
  code :: string
  place :: string
  latitude :: real
  longitude :: real

datatype feedback_msg =
    NoFeedback
  | AllMastered
  | Correct
  | CorrectSelectNext
  | IncorrectTryAgain
  | TheAnswerIs string

datatype js_error = TypeError | SyntaxError

text \<open>
  What the closure \<open>generateQuestion\<close> captures from its render and reads: the catalog
  and the mastered list. A pending \<open>setTimeout(() => generateQuestion(), 1000)\<close> is
  represented by the captured values of the render that scheduled it.
\<close>

record closure =
  cl_areaCodes :: "entry list"
  cl_correctList :: "string list"

record app_state =
  areaCodes :: "entry list"
  loading :: bool
  appSection :: string
  mode :: string
  currentQuestion :: "entry option"
  userInput :: string
  feedback :: feedback_msg
  autoNext :: bool
  shouldZoom :: bool
  showAllDots :: bool
  searchTerm :: string
  highlightCode :: "string option"
  dictStatus :: "string \<rightharpoonup> int"
  correctList :: "string list"
  reviewList :: "string list"
  mistakeCount :: int
  timers :: "closure list"

definition closure_of :: "app_state \<Rightarrow> closure" where
  "closure_of s = \<lparr>cl_areaCodes = areaCodes s, cl_correctList = correctList s\<rparr>"

subsection \<open>Question selection\<close>

definition pending :: "closure \<Rightarrow> entry list" where
  \<comment> \<open>\<open>areaCodes.filter((item) => !correctList.includes(item.code))\<close>\<close>
  "pending cl = filter (\<lambda>item. code item \<notin> set (cl_correctList cl)) (cl_areaCodes cl)"

definition random_element :: "real \<Rightarrow> entry list \<Rightarrow> entry option" where
  \<comment> \<open>\<open>pending[Math.floor(rnd * pending.length)]\<close>; an index outside the array reads
      \<open>undefined\<close>, which is as falsy as \<open>null\<close>\<close>
  "random_element rnd xs =
     (let i = \<lfloor>rnd * real (length xs)\<rfloor>
      in if 0 \<le> i \<and> i < int (length xs) then Some (xs ! nat i) else None)"

definition generateQuestion :: "closure \<Rightarrow> real \<Rightarrow> entry option \<Rightarrow> app_state \<Rightarrow> app_state" where
  \<comment> \<open>\<open>cl\<close>: the render the closure belongs to; \<open>rnd\<close>: the value of \<open>Math.random()\<close>;
      the last argument is the state the setters act on\<close>
  "generateQuestion cl rnd specificPlace s =
     (let s1 = s\<lparr>feedback := NoFeedback, userInput := []\<rparr>
      in case specificPlace of
           Some loc \<Rightarrow> s1\<lparr>currentQuestion := Some loc, shouldZoom := False\<rparr>
         | None \<Rightarrow>
             if length (pending cl) = 0
             then s1\<lparr>feedback := AllMastered, currentQuestion := None\<rparr>
             else s1\<lparr>currentQuestion := random_element rnd (pending cl), shouldZoom := True\<rparr>)"

subsection \<open>Answer checking\<close>

definition isCorrect :: "string \<Rightarrow> string \<Rightarrow> entry \<Rightarrow> bool" where
  \<comment> \<open>the value of \<open>isCorrect\<close> that \<open>handleSubmit\<close> computes from \<open>mode\<close>, \<open>userInput\<close>
      and \<open>currentQuestion\<close>\<close>
  "isCorrect md input q =
     (let inputClean = toLowerCase (strip_whitespace input)
      in if md = ''nameToCode''
         then
           (let answerClean = toLowerCase (strip_whitespace (code q));
                inputClean' = (if \<not> startsWith inputClean ''0'' then ''0'' @ inputClean
                               else inputClean)
            in inputClean' = answerClean)
         else str_includes (toLowerCase (place q)) inputClean)"

definition addToReviewList :: "string \<Rightarrow> app_state \<Rightarrow> app_state \<Rightarrow> app_state" where
  \<comment> \<open>\<open>r\<close>: the render whose \<open>reviewList\<close> the closure reads; \<open>s\<close>: the state written\<close>
  "addToReviewList c r s =
     (if c \<notin> set (reviewList r) then s\<lparr>reviewList := reviewList r @ [c]\<rparr> else s)"

definition handleSubmit :: "app_state \<Rightarrow> app_state" where
  "handleSubmit r =
     (case currentQuestion r of
        None \<Rightarrow> r
      | Some q \<Rightarrow>
          if isCorrect (mode r) (userInput r) q
          then
            (let s1 = r\<lparr>feedback := Correct\<rparr>;
                 s2 = (if code q \<notin> set (correctList r)
                       then s1\<lparr>correctList := correctList r @ [code q]\<rparr> else s1)
             in if autoNext r
                then s2\<lparr>timers := timers s2 @ [closure_of r]\<rparr>
                else s2\<lparr>feedback := CorrectSelectNext\<rparr>)
          else
            (let s1 = r\<lparr>feedback := IncorrectTryAgain\<rparr>;
                 s2 = s1\<lparr>mistakeCount := mistakeCount s1 + 1\<rparr>
             in addToReviewList (code q) r s2))"

definition revealAnswer :: "app_state \<Rightarrow> js_error + app_state" where
  \<comment> \<open>\<open>currentQuestion.code\<close> on \<open>null\<close> throws a TypeError\<close>
  "revealAnswer r =
     (let s1 = r\<lparr>mistakeCount := mistakeCount r + 1\<rparr>
      in case currentQuestion r of
           None \<Rightarrow> Inl TypeError
         | Some q \<Rightarrow>
             Inr ((addToReviewList (code q) r s1)
                    \<lparr>feedback := TheAnswerIs (if mode r = ''nameToCode'' then code q
                                              else place q)\<rparr>))"

definition resetProgress :: "bool \<Rightarrow> real \<Rightarrow> app_state \<Rightarrow> app_state" where
  \<comment> \<open>\<open>confirmed\<close>: the answer of \<open>window.confirm\<close>. The call \<open>generateQuestion()\<close>
      at the end is the closure of the render in which the button was clicked.\<close>
  "resetProgress confirmed rnd r =
     (if confirmed
      then generateQuestion (closure_of r) rnd None
             (r\<lparr>correctList := [], reviewList := [], mistakeCount := 0\<rparr>)
      else r)"

subsection \<open>Dictionary\<close>

definition cycleStatus :: "string \<Rightarrow> app_state \<Rightarrow> app_state" where
  \<comment> \<open>\<open>dictStatus[code] || 0\<close> is 0 for a missing key; \<open>%\<close> takes the sign of the dividend.
      The keys are catalog codes, which start with \<open>0\<close>: none names a property that an
      object inherits.\<close>
  "cycleStatus c r =
     (let currentStatus = (case dictStatus r c of None \<Rightarrow> 0 | Some v \<Rightarrow> v);
          nextStatus = (currentStatus + 1) smod 3
      in r\<lparr>dictStatus := (dictStatus r)(c \<mapsto> nextStatus)\<rparr>)"

definition jumpToLocation :: "entry \<Rightarrow> app_state \<Rightarrow> app_state" where
  "jumpToLocation loc s = s\<lparr>currentQuestion := Some loc, shouldZoom := True\<rparr>"

subsection \<open>Effects and timers\<close>

definition startEffect :: "real \<Rightarrow> app_state \<Rightarrow> app_state" where
  \<comment> \<open>the effect with dependencies \<open>[loading, areaCodes, appSection]\<close>, run after a render
      in which one of them changed\<close>
  "startEffect rnd s =
     (if appSection s = ''GAME'' \<and> \<not> loading s \<and> length (areaCodes s) > 0
         \<and> currentQuestion s = None
      then generateQuestion (closure_of s) rnd None s else s)"

definition fireTimer :: "real \<Rightarrow> app_state \<Rightarrow> app_state" where
  \<comment> \<open>the oldest pending \<open>setTimeout(() => generateQuestion(), 1000)\<close> runs; all share one
      delay, so they run in the order they were scheduled\<close>
  "fireTimer rnd s =
     (case timers s of
        [] \<Rightarrow> s
      | cl # rest \<Rightarrow> generateQuestion cl rnd None (s\<lparr>timers := rest\<rparr>))"

subsection \<open>User actions\<close>

datatype action =
    TypeInput string
  | Submit
  | Skip real
  | Reveal
  | ClickMarker entry
  | JumpTo entry
  | Reset bool real
  | CycleStatus string
  | SetMode string
  | ToggleAutoNext
  | ToggleShowDots
  | SetSection string real
  | SetSearch string
  | SetHighlight "string option"
  | CatalogLoaded "entry list" real
  | TimerFires real

fun step :: "action \<Rightarrow> app_state \<Rightarrow> js_error + app_state" where
  "step (TypeInput v) s = Inr (s\<lparr>userInput := v\<rparr>)"
| "step Submit s = Inr (handleSubmit s)"
| "step (Skip rnd) s = Inr (generateQuestion (closure_of s) rnd None s)"
| "step Reveal s = revealAnswer s"
| "step (ClickMarker loc) s = Inr (generateQuestion (closure_of s) 0 (Some loc) s)"
    \<comment> \<open>with a location given, \<open>Math.random\<close> is not called: the draw is not read\<close>
| "step (JumpTo loc) s = Inr (jumpToLocation loc s)"
| "step (Reset confirmed rnd) s = Inr (resetProgress confirmed rnd s)"
| "step (CycleStatus c) s = Inr (cycleStatus c s)"
| "step (SetMode m) s = Inr (s\<lparr>mode := m\<rparr>)"
| "step ToggleAutoNext s = Inr (s\<lparr>autoNext := \<not> autoNext s\<rparr>)"
| "step ToggleShowDots s = Inr (s\<lparr>showAllDots := \<not> showAllDots s\<rparr>)"
| "step (SetSection sec rnd) s =
     Inr (if sec = appSection s then s else startEffect rnd (s\<lparr>appSection := sec\<rparr>))"
| "step (SetSearch v) s = Inr (s\<lparr>searchTerm := v\<rparr>)"
| "step (SetHighlight h) s = Inr (s\<lparr>highlightCode := h\<rparr>)"
| "step (CatalogLoaded entries rnd) s =
     Inr (startEffect rnd (s\<lparr>areaCodes := entries, loading := False\<rparr>))"
| "step (TimerFires rnd) s = Inr (fireTimer rnd s)"

fun run :: "action list \<Rightarrow> app_state \<Rightarrow> js_error + app_state" where
  "run [] s = Inr s"
| "run (a # acts) s = (case step a s of Inl e \<Rightarrow> Inl e | Inr s' \<Rightarrow> run acts s')"

text \<open>
  The codes answered correctly in the course of a run: at each \<open>Submit\<close> with an active
  question for which \<open>isCorrect\<close> holds, the code of that question.
\<close>

definition correct_answer :: "action \<Rightarrow> app_state \<Rightarrow> string list" where
  "correct_answer a s =
     (case (a, currentQuestion s) of
        (Submit, Some q) \<Rightarrow> if isCorrect (mode s) (userInput s) q then [code q] else []
      | _ \<Rightarrow> [])"

fun answered_correctly :: "action list \<Rightarrow> app_state \<Rightarrow> string list" where
  "answered_correctly [] s = []"
| "answered_correctly (a # acts) s =
     (case step a s of
        Inl e \<Rightarrow> []
      | Inr s' \<Rightarrow> correct_answer a s @ answered_correctly acts s')"

fun confirmed_reset :: "action \<Rightarrow> bool" where
  "confirmed_reset (Reset confirmed rnd) = confirmed"
| "confirmed_reset a = False"

fun timer_fires :: "action \<Rightarrow> bool" where
  "timer_fires (TimerFires rnd) = True"
| "timer_fires a = False"

definition statusOf :: "app_state \<Rightarrow> string \<Rightarrow> int" where
  \<comment> \<open>\<open>dictStatus[item.code] || 0\<close>, as the dictionary list and the map read it\<close>
  "statusOf s c = (case dictStatus s c of None \<Rightarrow> 0 | Some v \<Rightarrow> v)"

subsection \<open>Loading the persisted values\<close>

text \<open>
  The initial value of each persisted cell is computed from \<open>localStorage.getItem(key)\<close>,
  which is \<open>None\<close> for a missing key. \<open>JSON.parse\<close> is a parameter of the model: a function
  from the stored text to a value or a thrown error. No initializer catches.
\<close>

datatype json =
    JNull
  | JBool bool
  | JNum real
  | JStr string
  | JArr "json list"
  | JObj "(string \<times> json) list"

datatype js_number = NaN | Num int

definition is_digit :: "char \<Rightarrow> bool" where
  "is_digit c = (48 \<le> (of_char c :: nat) \<and> (of_char c :: nat) \<le> 57)"

definition digit_value :: "char \<Rightarrow> int" where
  "digit_value c = int (of_char c) - 48"

definition parseInt10 :: "string \<Rightarrow> js_number" where
  \<comment> \<open>\<open>parseInt(v, 10)\<close>: leading white space skipped, an optional sign, then the longest
      run of decimal digits; \<open>NaN\<close> when that run is empty. The value is exact, as the
      source's is up to \<open>2^53\<close>.\<close>
  "parseInt10 v =
     (let t = dropWhile js_whitespace v;
          neg = startsWith t ''-'';
          u = (if startsWith t ''-'' \<or> startsWith t ''+'' then tl t else t);
          ds = takeWhile is_digit u;
          n = foldl (\<lambda>a c. 10 * a + digit_value c) 0 ds
      in if ds = [] then NaN else Num (if neg then - n else n))"

definition init_mode :: "string option \<Rightarrow> string" where
  \<comment> \<open>\<open>localStorage.getItem("uk_codes_mode") || "nameToCode"\<close>: \<open>null\<close> and the empty
      string are falsy\<close>
  "init_mode saved =
     (case saved of None \<Rightarrow> ''nameToCode'' | Some v \<Rightarrow> if v = [] then ''nameToCode'' else v)"

definition init_autoNext :: "(string \<Rightarrow> js_error + json) \<Rightarrow> string option \<Rightarrow> js_error + json" where
  \<comment> \<open>\<open>JSON.parse(localStorage.getItem("uk_codes_auto_next") || "true")\<close>\<close>
  "init_autoNext JSON_parse saved =
     JSON_parse (case saved of None \<Rightarrow> ''true'' | Some v \<Rightarrow> if v = [] then ''true'' else v)"

definition init_showAllDots :: "(string \<Rightarrow> js_error + json) \<Rightarrow> string option \<Rightarrow> js_error + json" where
  \<comment> \<open>\<open>JSON.parse(localStorage.getItem("uk_codes_show_dots") || "true")\<close>\<close>
  "init_showAllDots JSON_parse saved =
     JSON_parse (case saved of None \<Rightarrow> ''true'' | Some v \<Rightarrow> if v = [] then ''true'' else v)"

definition init_dictStatus :: "(string \<Rightarrow> js_error + json) \<Rightarrow> string option \<Rightarrow> js_error + json" where
  \<comment> \<open>\<open>saved ? JSON.parse(saved) : {}\<close>\<close>
  "init_dictStatus JSON_parse saved =
     (case saved of
        None \<Rightarrow> Inr (JObj [])
      | Some v \<Rightarrow> if v = [] then Inr (JObj []) else JSON_parse v)"

definition init_correctList :: "(string \<Rightarrow> js_error + json) \<Rightarrow> string option \<Rightarrow> js_error + json" where
  \<comment> \<open>\<open>saved ? JSON.parse(saved) : []\<close>\<close>
  "init_correctList JSON_parse saved =
     (case saved of
        None \<Rightarrow> Inr (JArr [])
      | Some v \<Rightarrow> if v = [] then Inr (JArr []) else JSON_parse v)"

definition init_reviewList :: "(string \<Rightarrow> js_error + json) \<Rightarrow> string option \<Rightarrow> js_error + json" where
  \<comment> \<open>\<open>saved ? JSON.parse(saved) : []\<close>\<close>
  "init_reviewList JSON_parse saved =
     (case saved of
        None \<Rightarrow> Inr (JArr [])
      | Some v \<Rightarrow> if v = [] then Inr (JArr []) else JSON_parse v)"

definition init_mistakeCount :: "string option \<Rightarrow> js_number" where
  \<comment> \<open>\<open>saved ? parseInt(saved, 10) : 0\<close>\<close>
  "init_mistakeCount saved =
     (case saved of None \<Rightarrow> Num 0 | Some v \<Rightarrow> if v = [] then Num 0 else parseInt10 v)"

subsection \<open>The answer rules as the specification words them\<close>

text \<open>
  The normal form of a text, written out on its own: the white-space characters are
  listed, the upper-case letters are paired with their lower-case letters, and the
  text is walked through once. It serves as the yardstick for what \<open>handleSubmit\<close>
  computes with \<open>replace\<close> and \<open>toLowerCase\<close>.
\<close>

definition white_space_chars :: "char list" where
  \<comment> \<open>TAB, LF, VT, FF, CR, SP, NBSP\<close>
  "white_space_chars = [CHR 0x09, CHR 0x0A, CHR 0x0B, CHR 0x0C, CHR 0x0D, CHR 0x20, CHR 0xA0]"

definition upper_letters :: "char list" where
  "upper_letters =
     ''ABCDEFGHIJKLMNOPQRSTUVWXYZ'' @
     [CHR 0xC0, CHR 0xC1, CHR 0xC2, CHR 0xC3, CHR 0xC4, CHR 0xC5, CHR 0xC6, CHR 0xC7,
      CHR 0xC8, CHR 0xC9, CHR 0xCA, CHR 0xCB, CHR 0xCC, CHR 0xCD, CHR 0xCE, CHR 0xCF,
      CHR 0xD0, CHR 0xD1, CHR 0xD2, CHR 0xD3, CHR 0xD4, CHR 0xD5, CHR 0xD6, CHR 0xD8,
      CHR 0xD9, CHR 0xDA, CHR 0xDB, CHR 0xDC, CHR 0xDD, CHR 0xDE]"

definition lower_letters :: "char list" where
  "lower_letters =
     ''abcdefghijklmnopqrstuvwxyz'' @
     [CHR 0xE0, CHR 0xE1, CHR 0xE2, CHR 0xE3, CHR 0xE4, CHR 0xE5, CHR 0xE6, CHR 0xE7,
      CHR 0xE8, CHR 0xE9, CHR 0xEA, CHR 0xEB, CHR 0xEC, CHR 0xED, CHR 0xEE, CHR 0xEF,
      CHR 0xF0, CHR 0xF1, CHR 0xF2, CHR 0xF3, CHR 0xF4, CHR 0xF5, CHR 0xF6, CHR 0xF8,
      CHR 0xF9, CHR 0xFA, CHR 0xFB, CHR 0xFC, CHR 0xFD, CHR 0xFE]"

definition spec_lower_char :: "char \<Rightarrow> char" where
  "spec_lower_char c =
     (case map_of (zip upper_letters lower_letters) c of None \<Rightarrow> c | Some l \<Rightarrow> l)"

fun normalized :: "string \<Rightarrow> string" where
  \<comment> \<open>strip all white space, lower-case\<close>
  "normalized [] = []"
| "normalized (c # cs) =
     (if c \<in> set white_space_chars then normalized cs
      else spec_lower_char c # normalized cs)"

definition spec_placeToCode_correct :: "entry \<Rightarrow> string \<Rightarrow> bool" where
  \<comment> \<open>input and expected code normalized, a leading \<open>0\<close> supplied when the input has
      none, then exact equality\<close>
  "spec_placeToCode_correct q raw =
     (let given = normalized raw;
          expected = normalized (code q);
          given' = (if startsWith given ''0'' then given else CHR ''0'' # given)
      in given' = expected)"

definition spec_codeToPlace_correct :: "entry \<Rightarrow> string \<Rightarrow> bool" where
  \<comment> \<open>the normalized place name contains the normalized input\<close>
  "spec_codeToPlace_correct q raw = sublist (normalized raw) (normalized (place q))"

subsection \<open>Sample data\<close>

definition testtown :: entry where
  "testtown = \<lparr>code = ''01234'', place = ''Testtown'', latitude = 52, longitude = - 1\<rparr>"

definition aberdeen :: entry where
  "aberdeen = \<lparr>code = ''01224'', place = ''Aberdeen'', latitude = 57, longitude = - 2\<rparr>"

definition lettered_entry :: entry where
  \<comment> \<open>an entry whose code holds white space and an upper-case letter\<close>
  "lettered_entry = \<lparr>code = ''0 12A4'', place = ''Sampleton'', latitude = 50, longitude = 0\<rparr>"

definition st_albans :: entry where
  "st_albans = \<lparr>code = ''01727'', place = ''St Albans'', latitude = 207 / 4, longitude = - 1 / 3\<rparr>"

definition quiz_state :: app_state where
  \<comment> \<open>a session on a two-entry catalog, in the order of the place names as the loader
      leaves it; nothing mastered, \<open>Testtown\<close> asked\<close>
  "quiz_state =
     \<lparr>areaCodes = [st_albans, testtown], loading = False, appSection = ''GAME'',
      mode = ''nameToCode'', currentQuestion = Some testtown, userInput = ''1234'',
      feedback = NoFeedback, autoNext = True, shouldZoom = True, showAllDots = True,
      searchTerm = [], highlightCode = None, dictStatus = Map.empty,
      correctList = [], reviewList = [], mistakeCount = 0, timers = []\<rparr>"

definition all_mastered_state :: app_state where
  \<comment> \<open>every entry of the catalog mastered, no question active\<close>
  "all_mastered_state =
     \<lparr>areaCodes = [st_albans, testtown], loading = False, appSection = ''GAME'',
      mode = ''nameToCode'', currentQuestion = None, userInput = [],
      feedback = AllMastered, autoNext = True, shouldZoom = True, showAllDots = True,
      searchTerm = [], highlightCode = None, dictStatus = [''01234'' \<mapsto> 2],
      correctList = [''01234'', ''01727''], reviewList = [''01727''], mistakeCount = 3,
      timers = []\<rparr>"

definition sample_parse :: "string \<Rightarrow> js_error + json" where
  \<comment> \<open>an instance of the parameter \<open>JSON_parse\<close> for evaluation: the two boolean
      literals are parsed, every other text is rejected\<close>
  "sample_parse v =
     (if v = ''true'' then Inr (JBool True)
      else if v = ''false'' then Inr (JBool False)
      else Inl SyntaxError)"

definition wrong_answer_state :: app_state where
  \<comment> \<open>\<open>Testtown\<close> asked for its place, \<open>wrongplace\<close> typed\<close>
  "wrong_answer_state = quiz_state\<lparr>mode := ''codeToName'', userInput := ''wrongplace''\<rparr>"

definition st_albans_state :: app_state where
  \<comment> \<open>the place of \<open>01727\<close> asked, its full name typed\<close>
  "st_albans_state =
     quiz_state\<lparr>mode := ''codeToName'', currentQuestion := Some st_albans,
                userInput := ''St Albans''\<rparr>"

definition last_question_state :: app_state where
  \<comment> \<open>\<open>St Albans\<close> mastered already, \<open>Testtown\<close> asked and its code typed\<close>
  "last_question_state = quiz_state\<lparr>correctList := [''01727'']\<rparr>"

definition three_entry_state :: app_state where
  \<comment> \<open>the same session on a catalog of three entries\<close>
  "three_entry_state = quiz_state\<lparr>areaCodes := [aberdeen, st_albans, testtown]\<rparr>"

section \<open>Properties\<close>

subsection \<open>Strings\<close>

lemma startsWith_prefix: "startsWith s p \<longleftrightarrow> prefix p s"
  by (induction s p rule: startsWith.induct) auto

lemma str_includes_sublist: "str_includes s sub \<longleftrightarrow> sublist sub s"
  by (induction s) (auto simp: startsWith_prefix sublist_Cons_right)

lemma chars_agree:
  "list_all (\<lambda>c. (js_whitespace c \<longleftrightarrow> c \<in> set white_space_chars)
                  \<and> lower_char c = spec_lower_char c) (Enum.enum :: char list)"
  by code_simp

lemma js_whitespace_listed: "js_whitespace c \<longleftrightarrow> c \<in> set white_space_chars"
  using chars_agree by (simp add: list_all_iff enum_UNIV)

lemma lower_char_paired: "lower_char c = spec_lower_char c"
  using chars_agree by (simp add: list_all_iff enum_UNIV)

lemma normalized_code: "toLowerCase (strip_whitespace raw) = normalized raw"
  by (induction raw)
     (simp_all add: toLowerCase_def strip_whitespace_def js_whitespace_listed lower_char_paired)

lemma strip_whitespace_idem: "strip_whitespace (strip_whitespace s) = strip_whitespace s"
  by (simp add: strip_whitespace_def)

lemma testtown_1234: "isCorrect ''nameToCode'' ''1234'' testtown"
  by code_simp

lemma testtown_spaced: "isCorrect ''nameToCode'' ('' 0 12'' @ [CHR 0x09] @ ''34 '') testtown"
  by code_simp

lemma testtown_two_zeros: "\<not> isCorrect ''nameToCode'' ''001234'' testtown"
  by code_simp

lemma lettered_lower: "isCorrect ''nameToCode'' ''12a 4'' lettered_entry"
  by code_simp

lemma lettered_upper: "isCorrect ''nameToCode'' ''012A4'' lettered_entry"
  by code_simp

lemma testtown_test: "isCorrect ''codeToName'' ''test'' testtown"
  by code_simp

lemma testtown_wrongplace: "\<not> isCorrect ''codeToName'' ''wrongplace'' testtown"
  by code_simp

lemma st_albans_full_name: "\<not> isCorrect ''codeToName'' ''St Albans'' st_albans"
  by code_simp

lemma st_albans_normalized:
  "str_includes (normalized (place st_albans)) (normalized ''St Albans'')"
  by code_simp

lemma testtown_normalized:
  "str_includes (normalized (place testtown)) (normalized ''test'')"
  by code_simp

subsection \<open>Selection\<close>

lemma random_element_in_range:
  assumes "0 \<le> rnd" "rnd < 1" "xs \<noteq> []"
  shows "\<exists>x \<in> set xs. random_element rnd xs = Some x"
proof -
  let ?n = "length xs"
  have pos: "0 < real ?n" using assms(3) by simp
  have lo: "0 \<le> \<lfloor>rnd * real ?n\<rfloor>" using assms(1) by simp
  have "rnd * real ?n < real ?n" using assms(2) pos by simp
  then have hi: "\<lfloor>rnd * real ?n\<rfloor> < int ?n" by (simp add: floor_less_iff)
  then have "nat \<lfloor>rnd * real ?n\<rfloor> < ?n" using lo by linarith
  then have mem: "xs ! nat \<lfloor>rnd * real ?n\<rfloor> \<in> set xs" by (rule nth_mem)
  have "random_element rnd xs = Some (xs ! nat \<lfloor>rnd * real ?n\<rfloor>)"
    using lo hi by (simp add: random_element_def Let_def)
  then show ?thesis using mem by blast
qed

lemma pending_empty_iff:
  "pending cl = [] \<longleftrightarrow> (\<forall>e \<in> set (cl_areaCodes cl). code e \<in> set (cl_correctList cl))"
  by (auto simp: pending_def filter_empty_conv)

lemma set_pending:
  "set (pending cl) = {e \<in> set (cl_areaCodes cl). code e \<notin> set (cl_correctList cl)}"
  by (auto simp: pending_def)

lemma pending_quiz_state: "pending (closure_of quiz_state) = [st_albans, testtown]"
  by (simp add: pending_def closure_of_def quiz_state_def)

lemma correctList_generateQuestion [simp]:
  "correctList (generateQuestion cl rnd sp s) = correctList s"
  by (simp add: generateQuestion_def Let_def split: option.splits)

lemma areaCodes_generateQuestion [simp]:
  "areaCodes (generateQuestion cl rnd sp s) = areaCodes s"
  by (simp add: generateQuestion_def Let_def split: option.splits)

lemma timers_generateQuestion [simp]:
  "timers (generateQuestion cl rnd sp s) = timers s"
  by (simp add: generateQuestion_def Let_def split: option.splits)

lemma generateQuestion_closure_pool:
  assumes "0 \<le> rnd" and "rnd < 1"
  shows "(currentQuestion (generateQuestion cl rnd None s) = None
            \<longleftrightarrow> (\<forall>e \<in> set (cl_areaCodes cl). code e \<in> set (cl_correctList cl)))
       \<and> (\<forall>q. currentQuestion (generateQuestion cl rnd None s) = Some q
              \<longrightarrow> q \<in> set (cl_areaCodes cl) \<and> code q \<notin> set (cl_correctList cl))"
proof (cases "pending cl = []")
  case True
  then have "currentQuestion (generateQuestion cl rnd None s) = None"
    by (simp add: generateQuestion_def)
  then show ?thesis using True by (simp add: pending_empty_iff)
next
  case False
  then obtain x where x: "x \<in> set (pending cl)" "random_element rnd (pending cl) = Some x"
    using random_element_in_range [OF assms] by blast
  have "currentQuestion (generateQuestion cl rnd None s) = Some x"
    using False x(2) by (simp add: generateQuestion_def)
  then show ?thesis using False x(1) by (auto simp: pending_empty_iff set_pending)
qed

lemma skip_selects_from_pending:
  assumes "0 \<le> rnd" and "rnd < 1" and "step (Skip rnd) s = Inr s'"
  shows "(currentQuestion s' = None
            \<longleftrightarrow> (\<forall>e \<in> set (areaCodes s). code e \<in> set (correctList s)))
       \<and> (\<forall>q. currentQuestion s' = Some q
              \<longrightarrow> q \<in> set (areaCodes s) \<and> code q \<notin> set (correctList s))"
  using generateQuestion_closure_pool [OF assms(1,2), of "closure_of s" s] assms(3)
  by (auto simp: closure_of_def)

subsection \<open>Answers\<close>

lemma feedback_handleSubmit:
  "currentQuestion s = Some q \<Longrightarrow>
   feedback (handleSubmit s) = IncorrectTryAgain \<longleftrightarrow> \<not> isCorrect (mode s) (userInput s) q"
  by (simp add: handleSubmit_def Let_def addToReviewList_def)

lemma isCorrect_nameToCode:
  "isCorrect ''nameToCode'' raw q = spec_placeToCode_correct q raw"
  by (simp add: isCorrect_def spec_placeToCode_correct_def normalized_code Let_def)

lemma isCorrect_codeToName:
  "md \<noteq> ''nameToCode'' \<Longrightarrow>
   isCorrect md raw q = sublist (normalized raw) (toLowerCase (place q))"
  by (simp add: isCorrect_def normalized_code str_includes_sublist)

lemma isCorrect_codeToName_no_space:
  "md \<noteq> ''nameToCode'' \<Longrightarrow> strip_whitespace (place q) = place q \<Longrightarrow>
   isCorrect md raw q = spec_codeToPlace_correct q raw"
  by (simp add: isCorrect_codeToName spec_codeToPlace_correct_def normalized_code [symmetric])

lemma handleSubmit_incorrect:
  assumes "currentQuestion s = Some q" and "\<not> isCorrect (mode s) (userInput s) q"
  shows "handleSubmit s =
           addToReviewList (code q) s
             (s\<lparr>feedback := IncorrectTryAgain, mistakeCount := mistakeCount s + 1\<rparr>)"
  using assms by (simp add: handleSubmit_def Let_def)

text \<open>
  C2. With the direction code-to-place the claim counts an answer correct exactly when the
  white-space-stripped, lower-cased place name contains the stripped, lower-cased input.
  \<open>handleSubmit\<close> strips the input but only lower-cases the place name (lemma
  \<open>isCorrect_codeToName\<close>), so the full name of a place written in two words is refused:
  for \<open>St Albans\<close> the input \<open>St Albans\<close> is counted as a mistake, while the rule as worded
  accepts it. On \<open>Testtown\<close> the input \<open>test\<close> is accepted by both.
\<close>

theorem two_word_place_name_refused:
  "\<not> isCorrect ''codeToName'' ''St Albans'' st_albans
   \<and> spec_codeToPlace_correct st_albans ''St Albans''
   \<and> feedback (handleSubmit st_albans_state) = IncorrectTryAgain
   \<and> mistakeCount (handleSubmit st_albans_state) = mistakeCount st_albans_state + 1
   \<and> correctList (handleSubmit st_albans_state) = []
   \<and> isCorrect ''codeToName'' ''test'' testtown
   \<and> spec_codeToPlace_correct testtown ''test''"
proof -
  have st: "currentQuestion st_albans_state = Some st_albans"
    "mode st_albans_state = ''codeToName''" "userInput st_albans_state = ''St Albans''"
    "correctList st_albans_state = []"
    by (simp_all add: st_albans_state_def quiz_state_def)
  have wrong: "\<not> isCorrect (mode st_albans_state) (userInput st_albans_state) st_albans"
    using st_albans_full_name by (simp add: st)
  have eff: "feedback (handleSubmit st_albans_state) = IncorrectTryAgain
       \<and> mistakeCount (handleSubmit st_albans_state) = mistakeCount st_albans_state + 1
       \<and> correctList (handleSubmit st_albans_state) = []"
    by (simp add: handleSubmit_incorrect [OF st(1) wrong] addToReviewList_def st)
  have spec1: "spec_codeToPlace_correct st_albans ''St Albans''"
    using st_albans_normalized
    by (simp add: spec_codeToPlace_correct_def str_includes_sublist)
  have spec2: "spec_codeToPlace_correct testtown ''test''"
    using testtown_normalized
    by (simp add: spec_codeToPlace_correct_def str_includes_sublist)
  show ?thesis
    using st_albans_full_name testtown_test eff spec1 spec2 by blast
qed

text \<open>
  C3. With the direction place-to-code (\<open>mode = nameToCode\<close>) the \<open>isCorrect\<close> that
  \<open>handleSubmit\<close> computes with \<open>replace(/\s+/g, "")\<close> and \<open>toLowerCase()\<close> is the rule as
  worded, on the normal form written out on its own: white space removed from input and
  expected code, both lower-cased, \<open>0\<close> put in front of an input that does not start with
  \<open>0\<close>, then equality. A submission is answered with the message for a wrong answer
  exactly when that rule fails. For \<open>Testtown\<close>, code \<open>01234\<close>, the input \<open>1234\<close> is
  correct, and so is the input with blanks and a tab in it; an input with two leading
  zeros is not. For a code with a blank and an upper-case letter the input is correct in
  either case of the letter.
\<close>

theorem placeToCode_rule:
  "isCorrect ''nameToCode'' raw q = spec_placeToCode_correct q raw
   \<and> (currentQuestion s = Some q \<and> mode s = ''nameToCode''
        \<longrightarrow> (feedback (handleSubmit s) = IncorrectTryAgain
               \<longleftrightarrow> \<not> spec_placeToCode_correct q (userInput s)))
   \<and> isCorrect ''nameToCode'' ''1234'' testtown
   \<and> isCorrect ''nameToCode'' ('' 0 12'' @ [CHR 0x09] @ ''34 '') testtown
   \<and> \<not> isCorrect ''nameToCode'' ''001234'' testtown
   \<and> isCorrect ''nameToCode'' ''12a 4'' lettered_entry
   \<and> isCorrect ''nameToCode'' ''012A4'' lettered_entry"
  using feedback_handleSubmit [of s q] testtown_1234 testtown_spaced testtown_two_zeros
    lettered_lower lettered_upper
  by (auto simp: isCorrect_nameToCode)

theorem placeToCode_rule_witness:
  "currentQuestion (quiz_state\<lparr>userInput := '' 0 12 34 ''\<rparr>) = Some testtown
   \<and> mode (quiz_state\<lparr>userInput := '' 0 12 34 ''\<rparr>) = ''nameToCode''
   \<and> spec_placeToCode_correct testtown '' 0 12 34 ''
   \<and> feedback (handleSubmit (quiz_state\<lparr>userInput := '' 0 12 34 ''\<rparr>)) \<noteq> IncorrectTryAgain"
proof -
  have st: "currentQuestion (quiz_state\<lparr>userInput := '' 0 12 34 ''\<rparr>) = Some testtown"
    "mode (quiz_state\<lparr>userInput := '' 0 12 34 ''\<rparr>) = ''nameToCode''"
    "userInput (quiz_state\<lparr>userInput := '' 0 12 34 ''\<rparr>) = '' 0 12 34 ''"
    by (simp_all add: quiz_state_def)
  have ok: "spec_placeToCode_correct testtown '' 0 12 34 ''"
    by code_simp
  show ?thesis
    using placeToCode_rule [of "'' 0 12 34 ''" testtown "quiz_state\<lparr>userInput := '' 0 12 34 ''\<rparr>"]
      ok
    by (auto simp: st)
qed

text \<open>
  C5. A wrong answer to the active question adds one to the mistake counter, appends the
  question's code to the review list unless it is there already (so the list gains no
  duplicate), and leaves the question, and the mastered list, as they were.
\<close>

theorem incorrect_submission_effects:
  assumes "currentQuestion s = Some q" and "\<not> isCorrect (mode s) (userInput s) q"
  shows "mistakeCount (handleSubmit s) = mistakeCount s + 1
       \<and> set (reviewList (handleSubmit s)) = insert (code q) (set (reviewList s))
       \<and> reviewList (handleSubmit s)
           = (if code q \<in> set (reviewList s) then reviewList s else reviewList s @ [code q])
       \<and> (distinct (reviewList s) \<longrightarrow> distinct (reviewList (handleSubmit s)))
       \<and> currentQuestion (handleSubmit s) = Some q
       \<and> correctList (handleSubmit s) = correctList s"
  using assms by (auto simp: handleSubmit_incorrect addToReviewList_def)

theorem incorrect_submission_effects_witness:
  "currentQuestion wrong_answer_state = Some testtown
   \<and> \<not> isCorrect (mode wrong_answer_state) (userInput wrong_answer_state) testtown
   \<and> mistakeCount (handleSubmit wrong_answer_state) = 1
   \<and> reviewList (handleSubmit wrong_answer_state) = [''01234'']
   \<and> distinct (reviewList (handleSubmit wrong_answer_state))
   \<and> currentQuestion (handleSubmit wrong_answer_state) = Some testtown"
proof -
  have st: "currentQuestion wrong_answer_state = Some testtown"
    "mode wrong_answer_state = ''codeToName''" "userInput wrong_answer_state = ''wrongplace''"
    "mistakeCount wrong_answer_state = 0" "reviewList wrong_answer_state = []"
    by (simp_all add: wrong_answer_state_def quiz_state_def)
  have wrong: "\<not> isCorrect (mode wrong_answer_state) (userInput wrong_answer_state) testtown"
    using testtown_wrongplace by (simp add: st)
  show ?thesis
    using incorrect_submission_effects [OF st(1) wrong] wrong
    by (simp add: st testtown_def)
qed

subsection \<open>Reset\<close>

lemma resetProgress_clears:
  "correctList (resetProgress True rnd s) = []
   \<and> reviewList (resetProgress True rnd s) = []
   \<and> mistakeCount (resetProgress True rnd s) = 0
   \<and> dictStatus (resetProgress True rnd s) = dictStatus s
   \<and> currentQuestion (resetProgress True rnd s)
       = currentQuestion (generateQuestion (closure_of s) rnd None s)"
  by (simp add: resetProgress_def generateQuestion_def Let_def split: option.splits)

lemma resetProgress_declined: "resetProgress False rnd s = s"
  by (simp add: resetProgress_def)

text \<open>
  C4. A confirmed reset empties the mastered list and the review list, sets the mistake
  counter to 0 and keeps the dictionary status (lemma \<open>resetProgress_clears\<close>). The
  question it then selects is drawn by the closure of the render in which the button was
  clicked, which still reads the mastered list from before the reset. After a reset in
  the state where every entry was mastered no question is selected and the message for a
  complete map is shown, although every entry of the catalog is pending again.
\<close>

theorem reset_after_full_mastery_selects_nothing:
  "correctList (resetProgress True rnd all_mastered_state) = []
   \<and> reviewList (resetProgress True rnd all_mastered_state) = []
   \<and> mistakeCount (resetProgress True rnd all_mastered_state) = 0
   \<and> dictStatus (resetProgress True rnd all_mastered_state) = dictStatus all_mastered_state
   \<and> currentQuestion (resetProgress True rnd all_mastered_state) = None
   \<and> feedback (resetProgress True rnd all_mastered_state) = AllMastered
   \<and> pending (closure_of (resetProgress True rnd all_mastered_state)) = [st_albans, testtown]"
  by (simp add: resetProgress_def generateQuestion_def all_mastered_state_def closure_of_def
      pending_def testtown_def st_albans_def)

subsection \<open>Dictionary status\<close>

lemma statusOf_cycleStatus:
  "statusOf (cycleStatus c s) c = (statusOf s c + 1) smod 3"
  by (simp add: cycleStatus_def statusOf_def Let_def)

lemma smod3_range:
  "v \<in> {0, 1, 2} \<Longrightarrow> (v + 1) smod 3 = (v + 1) mod (3::int) \<and> (v + 1) mod 3 \<in> {0, 1, 2}"
  by (auto simp: signed_modulo_int_def)

lemma cycleStatus_frame:
  "cycleStatus c s = s\<lparr>dictStatus := (dictStatus s)(c \<mapsto> (statusOf s c + 1) smod 3)\<rparr>"
  by (simp add: cycleStatus_def statusOf_def Let_def)

lemma cycleStatus_range:
  assumes "\<forall>k. statusOf s k \<in> {0, 1, 2}"
  shows "\<forall>k. statusOf (cycleStatus c s) k \<in> {0, 1, 2}"
proof
  fix k
  show "statusOf (cycleStatus c s) k \<in> {0, 1, 2}"
  proof (cases "k = c")
    case True
    have "statusOf s c \<in> {0, 1, 2}" using assms by blast
    then have "(statusOf s c + 1) smod 3 \<in> {0, 1, 2}"
      using smod3_range [of "statusOf s c"] by simp
    then show ?thesis using True by (simp only: statusOf_cycleStatus)
  next
    case False
    then have "statusOf (cycleStatus c s) k = statusOf s k"
      by (simp add: cycleStatus_frame statusOf_def)
    then show ?thesis using assms by simp
  qed
qed

text \<open>
  C6. For a code whose status is one of 0, 1, 2 (0 when the code has no entry),
  \<open>cycleStatus\<close> stores \<open>(status + 1) mod 3\<close> under that code and changes nothing else:
  the status of every other code, the mastered list, the review list and the mistake
  counter stay as they were, and three applications bring the status of the code back to
  where it was.
\<close>

theorem cycleStatus_three_cycle:
  assumes "statusOf s c \<in> {0, 1, 2}"
  shows "cycleStatus c s = s\<lparr>dictStatus := (dictStatus s)(c \<mapsto> (statusOf s c + 1) mod 3)\<rparr>
       \<and> statusOf (cycleStatus c s) c = (statusOf s c + 1) mod 3
       \<and> (\<forall>c'. c' \<noteq> c \<longrightarrow> dictStatus (cycleStatus c s) c' = dictStatus s c')
       \<and> statusOf (cycleStatus c (cycleStatus c (cycleStatus c s))) c = statusOf s c
       \<and> correctList (cycleStatus c s) = correctList s
       \<and> reviewList (cycleStatus c s) = reviewList s
       \<and> mistakeCount (cycleStatus c s) = mistakeCount s"
proof -
  have eq: "(statusOf s c + 1) smod 3 = (statusOf s c + 1) mod 3"
    using smod3_range [OF assms] by simp
  have three: "statusOf (cycleStatus c (cycleStatus c (cycleStatus c s))) c = statusOf s c"
    using assms by (auto simp: statusOf_cycleStatus signed_modulo_int_def)
  have frame:
    "cycleStatus c s = s\<lparr>dictStatus := (dictStatus s)(c \<mapsto> (statusOf s c + 1) mod 3)\<rparr>"
    by (simp only: cycleStatus_frame eq)
  have step1: "statusOf (cycleStatus c s) c = (statusOf s c + 1) mod 3"
    by (simp only: statusOf_cycleStatus eq)
  have others: "\<forall>c'. c' \<noteq> c \<longrightarrow> dictStatus (cycleStatus c s) c' = dictStatus s c'"
    by (simp add: cycleStatus_frame)
  have rest: "correctList (cycleStatus c s) = correctList s
       \<and> reviewList (cycleStatus c s) = reviewList s
       \<and> mistakeCount (cycleStatus c s) = mistakeCount s"
    by (simp add: cycleStatus_frame)
  show ?thesis
    using frame step1 others three rest by blast
qed

theorem cycleStatus_three_cycle_witness:
  "statusOf all_mastered_state ''01234'' = 2
   \<and> statusOf (cycleStatus ''01234'' all_mastered_state) ''01234'' = 0
   \<and> statusOf (cycleStatus ''01727'' all_mastered_state) ''01727'' = 1
   \<and> statusOf (cycleStatus ''01234'' (cycleStatus ''01234''
        (cycleStatus ''01234'' all_mastered_state))) ''01234'' = 2
   \<and> correctList (cycleStatus ''01234'' all_mastered_state) = [''01234'', ''01727'']"
proof -
  have st: "statusOf all_mastered_state ''01234'' = 2" "statusOf all_mastered_state ''01727'' = 0"
    "correctList all_mastered_state = [''01234'', ''01727'']"
    by (simp_all add: statusOf_def all_mastered_state_def)
  have a: "statusOf all_mastered_state ''01234'' \<in> {0, 1, 2}"
    and b: "statusOf all_mastered_state ''01727'' \<in> {0, 1, 2}"
    by (simp_all add: st)
  note A = cycleStatus_three_cycle [OF a] and B = cycleStatus_three_cycle [OF b]
  have "statusOf (cycleStatus ''01234'' all_mastered_state) ''01234'' = 0"
    using A [THEN conjunct2, THEN conjunct1] by (simp add: st)
  moreover have "statusOf (cycleStatus ''01727'' all_mastered_state) ''01727'' = 1"
    using B [THEN conjunct2, THEN conjunct1] by (simp add: st)
  moreover have "statusOf (cycleStatus ''01234'' (cycleStatus ''01234''
        (cycleStatus ''01234'' all_mastered_state))) ''01234'' = 2"
    using A [THEN conjunct2, THEN conjunct2, THEN conjunct2, THEN conjunct1] by (simp add: st)
  moreover have "correctList (cycleStatus ''01234'' all_mastered_state) = [''01234'', ''01727'']"
    using A [THEN conjunct2, THEN conjunct2, THEN conjunct2, THEN conjunct2, THEN conjunct1]
    by (simp add: st)
  ultimately show ?thesis by (simp add: st)
qed

subsection \<open>Reveal\<close>

text \<open>
  C10. With no active question \<open>handleSubmit\<close> returns at once and leaves the state as it
  is, while \<open>revealAnswer\<close> has no such test: it reads \<open>currentQuestion.code\<close> and throws.
\<close>

theorem reveal_unguarded:
  assumes "currentQuestion s = None"
  shows "handleSubmit s = s \<and> step Submit s = Inr s
       \<and> revealAnswer s = Inl TypeError \<and> step Reveal s = Inl TypeError"
  using assms by (simp add: handleSubmit_def revealAnswer_def)

theorem reveal_unguarded_witness:
  "currentQuestion all_mastered_state = None
   \<and> handleSubmit all_mastered_state = all_mastered_state
   \<and> revealAnswer all_mastered_state = Inl TypeError"
proof -
  have st: "currentQuestion all_mastered_state = None"
    by (simp add: all_mastered_state_def)
  show ?thesis using reveal_unguarded [OF st] st by simp
qed

subsection \<open>The mastered list over a run\<close>

lemma correctList_startEffect [simp]: "correctList (startEffect rnd s) = correctList s"
  by (simp add: startEffect_def)

lemma timers_startEffect [simp]: "timers (startEffect rnd s) = timers s"
  by (simp add: startEffect_def)

lemma correctList_addToReviewList [simp]:
  "correctList (addToReviewList c r s) = correctList s"
  by (simp add: addToReviewList_def)

lemma timers_addToReviewList [simp]: "timers (addToReviewList c r s) = timers s"
  by (simp add: addToReviewList_def)

lemma correctList_fireTimer [simp]: "correctList (fireTimer rnd s) = correctList s"
  by (simp add: fireTimer_def split: list.splits)

lemma correctList_revealAnswer: "revealAnswer s = Inr s' \<Longrightarrow> correctList s' = correctList s"
  by (auto simp: revealAnswer_def Let_def split: option.splits)

lemma timers_revealAnswer: "revealAnswer s = Inr s' \<Longrightarrow> timers s' = timers s"
  by (auto simp: revealAnswer_def Let_def split: option.splits)

lemma correctList_handleSubmit:
  "correctList (handleSubmit s) =
     (case currentQuestion s of
        None \<Rightarrow> correctList s
      | Some q \<Rightarrow> if isCorrect (mode s) (userInput s) q \<and> code q \<notin> set (correctList s)
                  then correctList s @ [code q] else correctList s)"
  by (simp add: handleSubmit_def Let_def split: option.splits)

lemma timers_handleSubmit:
  "timers (handleSubmit s) =
     (case currentQuestion s of
        None \<Rightarrow> timers s
      | Some q \<Rightarrow> if isCorrect (mode s) (userInput s) q \<and> autoNext s
                  then timers s @ [closure_of s] else timers s)"
  by (simp add: handleSubmit_def Let_def split: option.splits)

lemma correctList_resetProgress:
  "correctList (resetProgress confirmed rnd s) = (if confirmed then [] else correctList s)"
  by (simp add: resetProgress_def)

lemma step_correctList:
  assumes "step a s = Inr s'"
  shows "correctList s' = correctList s
       \<or> (a = Submit \<and> (\<exists>q. currentQuestion s = Some q \<and> isCorrect (mode s) (userInput s) q
                            \<and> code q \<notin> set (correctList s)
                            \<and> correctList s' = correctList s @ [code q]))
       \<or> (\<exists>rnd. a = Reset True rnd \<and> correctList s' = [])"
proof (cases a)
  case Submit
  then have "s' = handleSubmit s" using assms by simp
  then show ?thesis using Submit
    by (auto simp: correctList_handleSubmit split: option.splits)
next
  case Reveal
  then show ?thesis using assms by (simp add: correctList_revealAnswer)
next
  case (Reset confirmed rnd)
  then have "s' = resetProgress confirmed rnd s" using assms by simp
  then show ?thesis using Reset by (cases confirmed) (simp_all add: correctList_resetProgress)
next
  case (CycleStatus c)
  then show ?thesis using assms by (auto simp: cycleStatus_def Let_def)
next
  case (JumpTo loc)
  then show ?thesis using assms by (auto simp: jumpToLocation_def)
qed (use assms in auto)

lemma step_mastered_subset:
  assumes "step a s = Inr s'"
  shows "set (correctList s') \<subseteq> set (correctList s) \<union> set (correct_answer a s)"
  using step_correctList [OF assms] by (auto simp: correct_answer_def)

lemma step_mastered_prefix:
  assumes "step a s = Inr s'" and "\<not> confirmed_reset a"
  shows "prefix (correctList s) (correctList s')"
  using step_correctList [OF assms(1)] assms(2) by auto

lemma run_mastered_subset:
  "run acts s = Inr s' \<Longrightarrow>
   set (correctList s') \<subseteq> set (correctList s) \<union> set (answered_correctly acts s)"
proof (induction acts arbitrary: s)
  case Nil
  then show ?case by simp
next
  case (Cons a acts)
  from Cons.prems obtain s1 where s1: "step a s = Inr s1" and rest: "run acts s1 = Inr s'"
    by (auto split: sum.splits)
  have "set (correctList s') \<subseteq> set (correctList s1) \<union> set (answered_correctly acts s1)"
    using Cons.IH [OF rest] .
  moreover have "set (correctList s1) \<subseteq> set (correctList s) \<union> set (correct_answer a s)"
    using step_mastered_subset [OF s1] .
  ultimately show ?case using s1 by auto
qed

lemma run_mastered_prefix:
  "run acts s = Inr s' \<Longrightarrow> \<forall>a \<in> set acts. \<not> confirmed_reset a \<Longrightarrow>
   prefix (correctList s) (correctList s')"
proof (induction acts arbitrary: s)
  case Nil
  then show ?case by simp
next
  case (Cons a acts)
  from Cons.prems(1) obtain s1 where s1: "step a s = Inr s1" and rest: "run acts s1 = Inr s'"
    by (auto split: sum.splits)
  have "prefix (correctList s) (correctList s1)"
    using step_mastered_prefix [OF s1] Cons.prems(2) by simp
  moreover have "prefix (correctList s1) (correctList s')"
    using Cons.IH [OF rest] Cons.prems(2) by simp
  ultimately show ?case by (rule prefix_order.trans)
qed

lemma handleSubmit_quiz_state:
  "handleSubmit quiz_state =
     quiz_state\<lparr>feedback := Correct, correctList := [''01234''],
                timers := [closure_of quiz_state]\<rparr>"
  using testtown_1234 by (simp add: handleSubmit_def quiz_state_def Let_def testtown_def)

text \<open>
  C7. In a state reached by any run of actions, the next action leaves the mastered list
  as it is, or it is a submission with a correct answer that appends the code of the
  current question, or it is a confirmed reset that empties the list. Hence every code in
  the mastered list after a run was in the list the run started from or was answered
  correctly during the run, and over a run without a confirmed reset the list only grows
  at its end. A run ends where a handler throws.
\<close>

theorem mastered_set_history:
  assumes "run acts s = Inr s'" and "step a s' = Inr s''"
  shows "(correctList s'' = correctList s'
         \<or> (a = Submit \<and> (\<exists>q. currentQuestion s' = Some q
                              \<and> isCorrect (mode s') (userInput s') q
                              \<and> code q \<notin> set (correctList s')
                              \<and> correctList s'' = correctList s' @ [code q]))
         \<or> (\<exists>rnd. a = Reset True rnd \<and> correctList s'' = []))
       \<and> set (correctList s') \<subseteq> set (correctList s) \<union> set (answered_correctly acts s)
       \<and> ((\<forall>b \<in> set acts. \<not> confirmed_reset b) \<longrightarrow> prefix (correctList s) (correctList s'))"
  using step_correctList [OF assms(2)] run_mastered_subset [OF assms(1)]
    run_mastered_prefix [OF assms(1)] by blast

theorem mastered_set_history_witness:
  "run [TypeInput ''1234'', Submit] quiz_state = Inr (handleSubmit quiz_state)
   \<and> step (Reset True 0) (handleSubmit quiz_state)
       = Inr (resetProgress True 0 (handleSubmit quiz_state))
   \<and> correctList (handleSubmit quiz_state) = [''01234'']
   \<and> answered_correctly [TypeInput ''1234'', Submit] quiz_state = [''01234'']
   \<and> correctList (resetProgress True 0 (handleSubmit quiz_state)) = []
   \<and> prefix (correctList quiz_state) (correctList (handleSubmit quiz_state))"
proof -
  have ty: "quiz_state\<lparr>userInput := ''1234''\<rparr> = quiz_state"
    by (simp add: quiz_state_def)
  have r: "run [TypeInput ''1234'', Submit] quiz_state = Inr (handleSubmit quiz_state)"
    by (simp add: ty)
  have n: "step (Reset True 0) (handleSubmit quiz_state)
             = Inr (resetProgress True 0 (handleSubmit quiz_state))"
    by simp
  have an: "answered_correctly [TypeInput ''1234'', Submit] quiz_state = [''01234'']"
    using testtown_1234
    by (simp add: ty correct_answer_def quiz_state_def testtown_def)
  have nr: "\<forall>b \<in> set [TypeInput ''1234'', Submit]. \<not> confirmed_reset b" by simp
  show ?thesis
    using mastered_set_history [OF r n] r an nr
    by (simp add: handleSubmit_quiz_state correctList_resetProgress)
qed

subsection \<open>The deferred advance\<close>

lemma step_timers:
  assumes "step a s = Inr s'" and "\<not> timer_fires a"
  shows "prefix (timers s) (timers s')"
proof (cases a)
  case Submit
  then have "s' = handleSubmit s" using assms by simp
  then show ?thesis by (simp add: timers_handleSubmit split: option.splits)
next
  case Reveal
  then show ?thesis using assms by (simp add: timers_revealAnswer)
next
  case (Reset confirmed rnd)
  then show ?thesis using assms by (auto simp: resetProgress_def)
next
  case (CycleStatus c)
  then show ?thesis using assms by (auto simp: cycleStatus_def Let_def)
next
  case (JumpTo loc)
  then show ?thesis using assms by (auto simp: jumpToLocation_def)
qed (use assms in auto)

lemma handleSubmit_three_entry_state:
  "handleSubmit three_entry_state =
     three_entry_state\<lparr>feedback := Correct, correctList := [''01234''],
                       timers := [closure_of three_entry_state]\<rparr>"
  using testtown_1234
  by (simp add: handleSubmit_def three_entry_state_def quiz_state_def Let_def testtown_def)

lemma handleSubmit_last_question_state:
  "handleSubmit last_question_state =
     last_question_state\<lparr>feedback := Correct, correctList := [''01727'', ''01234''],
                         timers := [closure_of last_question_state]\<rparr>"
  using testtown_1234
  by (simp add: handleSubmit_def last_question_state_def quiz_state_def Let_def testtown_def)

lemma pending_three_entry_state:
  "pending (closure_of three_entry_state) = [aberdeen, st_albans, testtown]"
  by (simp add: pending_def closure_of_def three_entry_state_def quiz_state_def)

lemma pending_last_question_state:
  "pending (closure_of last_question_state) = [testtown]"
  by (simp add: pending_def closure_of_def last_question_state_def quiz_state_def
      st_albans_def testtown_def)

lemma draw_tenth: "random_element (1 / 10) [aberdeen, st_albans, testtown] = Some aberdeen"
  by (simp add: random_element_def)

lemma draw_half_single: "random_element (1 / 2) [testtown] = Some testtown"
  by (simp add: random_element_def)

text \<open>
  C1. The claim: a selection without an entry gives no question exactly when every
  catalog code is mastered, and otherwise an entry that is not mastered. That holds of
  \<open>generateQuestion\<close> for the lists its closure reads (lemma
  \<open>generateQuestion_closure_pool\<close>), and so of the Skip button, whose closure is of the
  current render (lemma \<open>skip_selects_from_pending\<close>). The deferred advance after a correct
  answer runs the closure of the render in which the answer was submitted, and that one
  reads the mastered list without the code just added. With \<open>St Albans\<close> mastered and
  \<open>Testtown\<close> answered correctly, every code is mastered and the pending pool of the state
  is empty, yet the advance asks \<open>Testtown\<close> again, an entry whose code is mastered.
\<close>

theorem advance_reasks_mastered_entry:
  "map_sum id currentQuestion (run [Submit, TimerFires (1 / 2)] last_question_state)
     = Inr (Some testtown)
   \<and> map_sum id correctList (run [Submit, TimerFires (1 / 2)] last_question_state)
     = Inr [''01727'', ''01234'']
   \<and> map_sum id (\<lambda>s. pending (closure_of s))
        (run [Submit, TimerFires (1 / 2)] last_question_state) = Inr []
   \<and> code testtown = ''01234''"
proof -
  define hs where "hs = handleSubmit last_question_state"
  have hs_t: "timers hs = [closure_of last_question_state]"
    and hs_c: "correctList hs = [''01727'', ''01234'']"
    and hs_a: "areaCodes hs = [st_albans, testtown]"
    by (simp_all add: hs_def handleSubmit_last_question_state)
       (simp add: last_question_state_def quiz_state_def)
  have fire: "fireTimer (1 / 2) hs =
     generateQuestion (closure_of last_question_state) (1 / 2) None (hs\<lparr>timers := []\<rparr>)"
    by (simp add: fireTimer_def hs_t)
  have cq: "currentQuestion (fireTimer (1 / 2) hs) = Some testtown"
    by (simp add: fire generateQuestion_def pending_last_question_state draw_half_single)
  have cl: "correctList (fireTimer (1 / 2) hs) = [''01727'', ''01234'']"
    by (simp add: fire hs_c)
  have ac: "areaCodes (fireTimer (1 / 2) hs) = [st_albans, testtown]"
    by (simp add: fire hs_a)
  have pool: "pending (closure_of (fireTimer (1 / 2) hs)) = []"
    by (simp add: pending_def closure_of_def hs_c ac st_albans_def testtown_def)
  have r: "run [Submit, TimerFires (1 / 2)] last_question_state = Inr (fireTimer (1 / 2) hs)"
    by (simp add: hs_def)
  have c: "code testtown = ''01234''" by (simp add: testtown_def)
  show ?thesis
    by (simp only: r map_sum.simps cq cl pool c)
qed

text \<open>
  C9. A scheduled advance is never cancelled. No action other than the firing of a timer
  removes a pending callback: every other action keeps the pending callbacks and at most
  adds one at the end. When the oldest pending callback fires it is removed and the
  question it leaves does not depend on the question that was active: whatever a later
  action had selected is overwritten.
\<close>

theorem auto_advance_never_cancelled:
  "(step a s = Inr s' \<and> \<not> timer_fires a \<longrightarrow> prefix (timers s) (timers s'))
   \<and> (timers s = cl # rest \<longrightarrow>
        step (TimerFires rnd) s = Inr (fireTimer rnd s)
        \<and> timers (fireTimer rnd s) = rest
        \<and> (\<forall>q. currentQuestion (fireTimer rnd (s\<lparr>currentQuestion := q\<rparr>))
                 = currentQuestion (fireTimer rnd s)))"
  using step_timers [of a s s']
  by (auto simp: fireTimer_def generateQuestion_def Let_def)

theorem auto_advance_never_cancelled_witness:
  "step (ClickMarker st_albans) (handleSubmit three_entry_state)
     = Inr (generateQuestion (closure_of (handleSubmit three_entry_state)) 0 (Some st_albans)
              (handleSubmit three_entry_state))
   \<and> \<not> timer_fires (ClickMarker st_albans)
   \<and> timers (handleSubmit three_entry_state) = [closure_of three_entry_state]
   \<and> prefix [closure_of three_entry_state]
        (timers (generateQuestion (closure_of (handleSubmit three_entry_state)) 0
                  (Some st_albans) (handleSubmit three_entry_state)))
   \<and> timers (fireTimer (1 / 10) (handleSubmit three_entry_state)) = []
   \<and> currentQuestion
        (fireTimer (1 / 10) ((handleSubmit three_entry_state)\<lparr>currentQuestion := Some st_albans\<rparr>))
       = currentQuestion (fireTimer (1 / 10) (handleSubmit three_entry_state))"
proof -
  have t: "timers (handleSubmit three_entry_state) = closure_of three_entry_state # []"
    by (simp add: handleSubmit_three_entry_state)
  have c: "step (ClickMarker st_albans) (handleSubmit three_entry_state)
     = Inr (generateQuestion (closure_of (handleSubmit three_entry_state)) 0 (Some st_albans)
              (handleSubmit three_entry_state))"
    by simp
  have n: "\<not> timer_fires (ClickMarker st_albans)" by simp
  note W = auto_advance_never_cancelled
            [of "ClickMarker st_albans" "handleSubmit three_entry_state"
                "generateQuestion (closure_of (handleSubmit three_entry_state)) 0
                   (Some st_albans) (handleSubmit three_entry_state)"
                "closure_of three_entry_state" "[]" "1 / 10"]
  have p: "prefix (timers (handleSubmit three_entry_state))
        (timers (generateQuestion (closure_of (handleSubmit three_entry_state)) 0
                  (Some st_albans) (handleSubmit three_entry_state)))"
    using W [THEN conjunct1] c n by blast
  have f: "timers (fireTimer (1 / 10) (handleSubmit three_entry_state)) = []
       \<and> (\<forall>q. currentQuestion
                 (fireTimer (1 / 10) ((handleSubmit three_entry_state)\<lparr>currentQuestion := q\<rparr>))
               = currentQuestion (fireTimer (1 / 10) (handleSubmit three_entry_state)))"
    using W [THEN conjunct2] t by blast
  show ?thesis
    using c n t p f by (simp only: t) blast
qed

text \<open>
  The claim as worded fails: on the catalog \<open>Aberdeen\<close>, \<open>St Albans\<close>, \<open>Testtown\<close>, after
  a correct answer to \<open>Testtown\<close> with automatic advance on, the learner clicks
  \<open>St Albans\<close> on the map, which becomes the question; the callback is still pending, and
  when it fires with the draw 1/10 it replaces \<open>St Albans\<close> by \<open>Aberdeen\<close>, the first
  entry of the pending pool.
\<close>

theorem stale_auto_advance_replaces_question:
  "map_sum id currentQuestion (run [Submit, ClickMarker st_albans] three_entry_state)
     = Inr (Some st_albans)
   \<and> map_sum id timers (run [Submit, ClickMarker st_albans] three_entry_state)
     = Inr [closure_of three_entry_state]
   \<and> map_sum id (\<lambda>s. pending (closure_of s))
        (run [Submit, ClickMarker st_albans] three_entry_state) = Inr [aberdeen, st_albans]
   \<and> map_sum id currentQuestion
        (run [Submit, ClickMarker st_albans, TimerFires (1 / 10)] three_entry_state)
     = Inr (Some aberdeen)
   \<and> aberdeen \<noteq> st_albans"
proof -
  define hs where "hs = handleSubmit three_entry_state"
  define ck where "ck = generateQuestion (closure_of hs) 0 (Some st_albans) hs"
  have hs_t: "timers hs = [closure_of three_entry_state]"
    and hs_c: "correctList hs = [''01234'']"
    and hs_a: "areaCodes hs = [aberdeen, st_albans, testtown]"
    by (simp_all add: hs_def handleSubmit_three_entry_state)
       (simp add: three_entry_state_def)
  have ck_q: "currentQuestion ck = Some st_albans"
    by (simp add: ck_def generateQuestion_def)
  have ck_t: "timers ck = [closure_of three_entry_state]"
    and ck_c: "correctList ck = [''01234'']"
    and ck_a: "areaCodes ck = [aberdeen, st_albans, testtown]"
    by (simp_all add: ck_def hs_t hs_c hs_a)
  have pool: "pending (closure_of ck) = [aberdeen, st_albans]"
    by (simp add: pending_def closure_of_def ck_c ck_a aberdeen_def st_albans_def testtown_def)
  have fire: "fireTimer (1 / 10) ck =
     generateQuestion (closure_of three_entry_state) (1 / 10) None (ck\<lparr>timers := []\<rparr>)"
    by (simp add: fireTimer_def ck_t)
  have fq: "currentQuestion (fireTimer (1 / 10) ck) = Some aberdeen"
    by (simp add: fire generateQuestion_def pending_three_entry_state draw_tenth)
  have r2: "run [Submit, ClickMarker st_albans] three_entry_state = Inr ck"
    by (simp add: ck_def hs_def)
  have r3: "run [Submit, ClickMarker st_albans, TimerFires (1 / 10)] three_entry_state
              = Inr (fireTimer (1 / 10) ck)"
    by (simp add: ck_def hs_def)
  have ne: "aberdeen \<noteq> st_albans" by (simp add: aberdeen_def st_albans_def)
  show ?thesis
    using ne by (simp only: r2 r3 map_sum.simps ck_q ck_t pool fq) simp
qed

subsection \<open>Loading\<close>

lemma parse_samples:
  "sample_parse ''{oops'' = Inl SyntaxError" "sample_parse ''true'' = Inr (JBool True)"
  by (simp_all add: sample_parse_def)

lemma parseInt10_abc: "parseInt10 ''abc'' = NaN"
  by code_simp

text \<open>
  C8. A missing key, like an empty stored text, gives the default of the cell: the empty
  array, the empty array, 0, the empty object, \<open>nameToCode\<close>, and for the two flags the
  parse of \<open>true\<close>. A stored text that is not empty is not checked: the mastered list, the
  review list, the dictionary status and the two flags are whatever \<open>JSON.parse\<close> returns
  or throws for it, the direction is the stored text itself, and the mistake counter is
  \<open>parseInt\<close> of it.
\<close>

theorem persisted_values_not_validated:
  "init_correctList P None = Inr (JArr []) \<and> init_reviewList P None = Inr (JArr [])
   \<and> init_mistakeCount None = Num 0 \<and> init_dictStatus P None = Inr (JObj [])
   \<and> init_mode None = ''nameToCode''
   \<and> init_autoNext P None = P ''true'' \<and> init_showAllDots P None = P ''true''
   \<and> init_correctList P (Some []) = Inr (JArr []) \<and> init_reviewList P (Some []) = Inr (JArr [])
   \<and> init_mistakeCount (Some []) = Num 0 \<and> init_dictStatus P (Some []) = Inr (JObj [])
   \<and> init_mode (Some []) = ''nameToCode''
   \<and> init_autoNext P (Some []) = P ''true'' \<and> init_showAllDots P (Some []) = P ''true''
   \<and> (v \<noteq> [] \<longrightarrow>
        init_correctList P (Some v) = P v \<and> init_reviewList P (Some v) = P v
        \<and> init_dictStatus P (Some v) = P v
        \<and> init_autoNext P (Some v) = P v \<and> init_showAllDots P (Some v) = P v
        \<and> init_mode (Some v) = v
        \<and> init_mistakeCount (Some v) = parseInt10 v)"
  by (simp add: init_correctList_def init_reviewList_def init_mistakeCount_def
      init_dictStatus_def init_mode_def init_autoNext_def init_showAllDots_def)

theorem persisted_values_not_validated_witness:
  "''{oops'' \<noteq> [] \<and> sample_parse ''{oops'' = Inl SyntaxError
   \<and> init_correctList sample_parse (Some ''{oops'') = Inl SyntaxError
   \<and> init_dictStatus sample_parse (Some ''{oops'') = Inl SyntaxError
   \<and> init_autoNext sample_parse (Some ''{oops'') = Inl SyntaxError
   \<and> init_autoNext sample_parse None = Inr (JBool True)
   \<and> init_autoNext sample_parse (Some []) = Inr (JBool True)
   \<and> init_correctList sample_parse (Some []) = Inr (JArr [])"
  using persisted_values_not_validated [of sample_parse "''{oops''"]
  by (simp add: parse_samples)

text \<open>
  The claim as worded fails: the stored direction \<open>garbage\<close> is kept and is not the
  default, the stored mistake count \<open>abc\<close> loads as \<open>NaN\<close> and not as 0, and for the
  stored mastered list \<open>{oops\<close>, on which \<open>JSON.parse\<close> throws a SyntaxError, the
  initializer throws it too where a missing key gives the empty array.
\<close>

theorem corrupt_value_not_treated_as_absent:
  "init_mode (Some ''garbage'') = ''garbage'' \<and> init_mode None = ''nameToCode''
   \<and> init_mistakeCount (Some ''abc'') = NaN \<and> init_mistakeCount None = Num 0
   \<and> init_correctList sample_parse (Some ''{oops'') = Inl SyntaxError
   \<and> init_correctList sample_parse None = Inr (JArr [])"
  using parseInt10_abc
  by (simp add: init_mode_def init_mistakeCount_def init_correctList_def parse_samples)

end
